theory Spec2Isabelle
  imports Main
begin

section \<open>The \<open>SportsCar\<close> class of \<open>Lec-02/abstraction.ts\<close>\<close>

text \<open>
  The class has two strings fixed by the constructor and three mutable fields. The two
  \<open>number\<close> fields only ever hold integers (they start at 0 and change by 1 or by 20), so
  they are modelled as \<open>int\<close>; this is exact as long as the magnitudes stay below
  \<open>2 ^ 53\<close>, where arithmetic on \<open>number\<close> is integer arithmetic
  (\<open>run_speed_le\<close> and \<open>run_gear_bounds\<close> below bound the values a run can reach).
  Every method returns \<open>void\<close>; its effects are the mutation of \<open>this\<close> and the lines
  it passes to \<open>console.log\<close>. A method is therefore a function from the object to the
  updated object and the list of lines written, in order.
\<close>

record SportsCar =
  brand :: string
  model :: string
  isEngineOn :: bool
  currentSpeed :: int
  currentGear :: int

text \<open>The field initialisers and the constructor (lines 10 to 19).\<close>

definition new_SportsCar :: "string \<Rightarrow> string \<Rightarrow> SportsCar" where
  "new_SportsCar b m =
     \<lparr>brand = b, model = m, isEngineOn = False, currentSpeed = 0, currentGear = 0\<rparr>"

text \<open>
  What a template literal puts in place of \<open>${n}\<close> for an integer \<open>n\<close>: its decimal
  digits, after a minus sign when it is negative.
\<close>

fun digits :: "nat \<Rightarrow> string" where
  "digits n = (if n < 10 then [''0123456789'' ! n]
               else digits (n div 10) @ [''0123456789'' ! (n mod 10)])"

declare digits.simps [simp del]

definition number_toString :: "int \<Rightarrow> string" where
  "number_toString n = (if n < 0 then ''-'' @ digits (nat (- n)) else digits (nat n))"

subsection \<open>The five methods\<close>

definition startEngine :: "SportsCar \<Rightarrow> SportsCar \<times> string list" where
  "startEngine this =
     (let this = this\<lparr>isEngineOn := True\<rparr>
      in (this, [brand this @ '' '' @ model this @ '': Engine start with a roar...'']))"

definition shiftGear :: "SportsCar \<Rightarrow> SportsCar \<times> string list" where
  "shiftGear this =
     (if \<not> isEngineOn this then
        (this, [brand this @ '' '' @ model this @ '' : Engine is off! Cannot shift a gear.''])
      else
        (let out = (if currentGear this = 6 then [''You cannot shift gear now''] else []);
             this = this\<lparr>currentGear := currentGear this + 1\<rparr>
         in (this, out @ [brand this @ '' '' @ model this @ '' : Shifted to gear ''
                            @ number_toString (currentGear this)])))"

definition accelerate :: "SportsCar \<Rightarrow> SportsCar \<times> string list" where
  "accelerate this =
     (if \<not> isEngineOn this then
        (this, [brand this @ '' '' @ model this @ '' : Engine is off! Cannot accelerate.''])
      else
        (let this = this\<lparr>currentSpeed := currentSpeed this + 20\<rparr>
         in (this, [brand this @ '' '' @ model this @ '' : accelerating to gear ''
                      @ number_toString (currentSpeed this) @ '' km/h.''])))"

definition brake :: "SportsCar \<Rightarrow> SportsCar \<times> string list" where
  "brake this =
     (let this = this\<lparr>currentSpeed := currentSpeed this - 20\<rparr>;
          this = (if currentSpeed this < 0 then this\<lparr>currentSpeed := 0\<rparr> else this);
          this = this\<lparr>currentGear := currentGear this - 1\<rparr>
      in (this, [brand this @ '' '' @ model this @ '' : Braking! Speed is now ''
                   @ number_toString (currentSpeed this) @ '' km/h, and Gear lowered to ''
                   @ number_toString (currentGear this)]))"

definition stopEngine :: "SportsCar \<Rightarrow> SportsCar \<times> string list" where
  "stopEngine this =
     (let this = this\<lparr>isEngineOn := False\<rparr>;
          this = this\<lparr>currentGear := 0\<rparr>;
          this = this\<lparr>currentSpeed := 0\<rparr>
      in (this, [brand this @ '' '' @ model this @ '' : Engine turned off.'']))"

subsection \<open>Calls through the \<open>Car\<close> interface\<close>

text \<open>
  The interface \<open>Car\<close> declares the five methods; a call names one of them. A script is a
  list of calls made one after the other on the same object, the lines of each call
  following those of the calls before it.
\<close>

datatype Car = StartEngine | ShiftGear | Accelerate | Brake | StopEngine

fun call :: "Car \<Rightarrow> SportsCar \<Rightarrow> SportsCar \<times> string list" where
  "call StartEngine this = startEngine this"
| "call ShiftGear this = shiftGear this"
| "call Accelerate this = accelerate this"
| "call Brake this = brake this"
| "call StopEngine this = stopEngine this"

fun run :: "Car list \<Rightarrow> SportsCar \<Rightarrow> SportsCar \<times> string list" where
  "run [] this = (this, [])"
| "run (m # ms) this =
     (let (this, out) = call m this;
          (this, out') = run ms this
      in (this, out @ out'))"

subsection \<open>The script at the end of the file (lines 67 to 79)\<close>

definition myCar :: SportsCar where
  "myCar = new_SportsCar ''Ford'' ''Mustang''"

definition driver :: "Car list" where
  "driver =
     [StartEngine, ShiftGear, Accelerate, ShiftGear, Accelerate, Brake,
      ShiftGear, Accelerate, ShiftGear, Brake, StopEngine]"

definition program :: "SportsCar \<times> string list" where
  "program =
     (let (this, out) = run driver myCar
      in (this, ''--- Operating the Car (via the Car interface) ---'' # out))"

text \<open>The part of the object a caller can tell apart: engine, gear, speed.\<close>

definition observe :: "SportsCar \<Rightarrow> bool \<times> int \<times> int" where
  "observe this = (isEngineOn this, currentGear this, currentSpeed this)"

section \<open>Properties\<close>

subsection \<open>Number formatting on the values the script prints\<close>

lemma number_toString_7: "number_toString 7 = ''7''"
  by (simp add: number_toString_def digits.simps)

text \<open>The whole transcript of the script, header line included.\<close>

lemma program_transcript:
  "snd program =
     [''--- Operating the Car (via the Car interface) ---'',
      ''Ford Mustang: Engine start with a roar...'',
      ''Ford Mustang : Shifted to gear 1'',
      ''Ford Mustang : accelerating to gear 20 km/h.'',
      ''Ford Mustang : Shifted to gear 2'',
      ''Ford Mustang : accelerating to gear 40 km/h.'',
      ''Ford Mustang : Braking! Speed is now 20 km/h, and Gear lowered to 1'',
      ''Ford Mustang : Shifted to gear 2'',
      ''Ford Mustang : accelerating to gear 40 km/h.'',
      ''Ford Mustang : Shifted to gear 3'',
      ''Ford Mustang : Braking! Speed is now 20 km/h, and Gear lowered to 2'',
      ''Ford Mustang : Engine turned off.'']"
  by (simp add: program_def driver_def myCar_def new_SportsCar_def
      startEngine_def shiftGear_def accelerate_def brake_def stopEngine_def Let_def
      number_toString_def digits.simps)

subsection \<open>One call preserves what a run preserves\<close>

lemmas method_defs =
  startEngine_def shiftGear_def accelerate_def brake_def stopEngine_def Let_def

lemma call_speed_nonneg:
  "0 \<le> currentSpeed this \<Longrightarrow> 0 \<le> currentSpeed (fst (call m this))"
  by (cases m) (simp_all add: method_defs)

lemma run_speed_nonneg:
  "0 \<le> currentSpeed this \<Longrightarrow> 0 \<le> currentSpeed (fst (run ms this))"
proof (induction ms arbitrary: this)
  case Nil
  then show ?case by simp
next
  case (Cons m ms)
  have "0 \<le> currentSpeed (fst (run ms (fst (call m this))))"
    by (rule Cons.IH) (rule call_speed_nonneg [OF Cons.prems])
  then show ?case by (simp add: split_beta)
qed

lemma call_speed_dvd:
  "20 dvd currentSpeed this \<Longrightarrow> 20 dvd currentSpeed (fst (call m this))"
  by (cases m) (simp_all add: method_defs)

lemma run_speed_dvd:
  "20 dvd currentSpeed this \<Longrightarrow> 20 dvd currentSpeed (fst (run ms this))"
proof (induction ms arbitrary: this)
  case Nil
  then show ?case by simp
next
  case (Cons m ms)
  have "20 dvd currentSpeed (fst (run ms (fst (call m this))))"
    by (rule Cons.IH) (rule call_speed_dvd [OF Cons.prems])
  then show ?case by (simp add: split_beta)
qed

subsection \<open>The values a run can reach\<close>

text \<open>
  A call raises the speed by at most 20 and moves the gear by at most 1, so a script of
  \<open>n\<close> calls on a fresh object keeps the speed within \<open>20 * n\<close> and the gear within
  \<open>n\<close> of zero: far inside the range where \<open>number\<close> arithmetic is exact, for any
  script of fewer than \<open>2 ^ 53 div 20\<close> calls.
\<close>

lemma call_speed_le:
  "0 \<le> currentSpeed this \<Longrightarrow> currentSpeed (fst (call m this)) \<le> currentSpeed this + 20"
  by (cases m) (simp_all add: method_defs)

lemma run_speed_le:
  "0 \<le> currentSpeed this \<Longrightarrow>
   currentSpeed (fst (run ms this)) \<le> currentSpeed this + 20 * int (length ms)"
proof (induction ms arbitrary: this)
  case Nil
  then show ?case by simp
next
  case (Cons m ms)
  let ?c = "fst (call m this)"
  have nn: "0 \<le> currentSpeed ?c"
    by (rule call_speed_nonneg [OF Cons.prems])
  have "currentSpeed (fst (run ms ?c)) \<le> currentSpeed ?c + 20 * int (length ms)"
    by (rule Cons.IH [OF nn])
  moreover have "currentSpeed ?c \<le> currentSpeed this + 20"
    by (rule call_speed_le [OF Cons.prems])
  ultimately show ?case by (simp add: split_beta)
qed

lemma call_gear_bounds:
  "\<bar>currentGear (fst (call m this))\<bar> \<le> \<bar>currentGear this\<bar> + 1"
  by (cases m) (auto simp add: method_defs)

lemma run_gear_bounds:
  "\<bar>currentGear (fst (run ms this))\<bar> \<le> \<bar>currentGear this\<bar> + int (length ms)"
proof (induction ms arbitrary: this)
  case Nil
  then show ?case by simp
next
  case (Cons m ms)
  let ?c = "fst (call m this)"
  have "\<bar>currentGear (fst (run ms ?c))\<bar> \<le> \<bar>currentGear ?c\<bar> + int (length ms)"
    by (rule Cons.IH)
  moreover have "\<bar>currentGear ?c\<bar> \<le> \<bar>currentGear this\<bar> + 1"
    by (rule call_gear_bounds)
  ultimately show ?case by (simp add: split_beta)
qed

lemma fresh_run_exact_range:
  assumes "20 * int (length ms) < 2 ^ 53"
  shows "currentSpeed (fst (run ms (new_SportsCar b m))) < 2 ^ 53
         \<and> \<bar>currentGear (fst (run ms (new_SportsCar b m)))\<bar> < 2 ^ 53"
proof -
  let ?c = "new_SportsCar b m"
  have "currentSpeed (fst (run ms ?c)) \<le> currentSpeed ?c + 20 * int (length ms)"
    by (rule run_speed_le) (simp add: new_SportsCar_def)
  moreover have "\<bar>currentGear (fst (run ms ?c))\<bar> \<le> \<bar>currentGear ?c\<bar> + int (length ms)"
    by (rule run_gear_bounds)
  moreover have "currentSpeed ?c = 0" and "currentGear ?c = 0"
    by (simp_all add: new_SportsCar_def)
  ultimately show ?thesis using assms by simp
qed

section \<open>The claims\<close>

text \<open>
  C1. Whatever calls are made on a freshly constructed car, and however many of them
  have been made so far, the speed is not negative: for every script \<open>ms\<close> and every
  \<open>n\<close>, the speed after the first \<open>n\<close> calls of \<open>ms\<close> is at least 0.
\<close>

theorem speed_never_negative:
  "0 \<le> currentSpeed (fst (run (take n ms) (new_SportsCar b m)))"
  by (rule run_speed_nonneg) (simp add: new_SportsCar_def)

text \<open>
  C2. With the engine running and the gear at 6, \<open>shiftGear\<close> first writes the line
  \<open>You cannot shift gear now\<close> and then shifts all the same: the gear becomes 7, the
  second line reports gear 7, and nothing else in the object changes.
\<close>

theorem shiftGear_at_gear_6:
  assumes "isEngineOn this" and "currentGear this = 6"
  shows "shiftGear this =
           (this\<lparr>currentGear := 7\<rparr>,
            [''You cannot shift gear now'',
             brand this @ '' '' @ model this @ '' : Shifted to gear 7''])"
  using assms by (simp add: shiftGear_def Let_def number_toString_7)

text \<open>
  The state of C2 is reached by starting the engine of the script's car and shifting six
  times; the seventh shift there writes both lines and leaves gear 7.
\<close>

theorem shiftGear_at_gear_6_witness:
  "isEngineOn (fst (run [StartEngine, ShiftGear, ShiftGear, ShiftGear, ShiftGear, ShiftGear,
                         ShiftGear] myCar))
   \<and> currentGear (fst (run [StartEngine, ShiftGear, ShiftGear, ShiftGear, ShiftGear, ShiftGear,
                         ShiftGear] myCar)) = 6
   \<and> snd (shiftGear (fst (run [StartEngine, ShiftGear, ShiftGear, ShiftGear, ShiftGear,
                         ShiftGear, ShiftGear] myCar)))
       = [''You cannot shift gear now'', ''Ford Mustang : Shifted to gear 7'']
   \<and> currentGear (fst (shiftGear (fst (run [StartEngine, ShiftGear, ShiftGear, ShiftGear,
                         ShiftGear, ShiftGear, ShiftGear] myCar)))) = 7"
proof -
  let ?c = "fst (run [StartEngine, ShiftGear, ShiftGear, ShiftGear, ShiftGear, ShiftGear,
                      ShiftGear] myCar)"
  have c: "?c = \<lparr>brand = ''Ford'', model = ''Mustang'', isEngineOn = True,
                 currentSpeed = 0, currentGear = 6\<rparr>"
    by (simp add: myCar_def new_SportsCar_def startEngine_def shiftGear_def Let_def)
  have on: "isEngineOn ?c" and six: "currentGear ?c = 6"
    by (simp_all only: c SportsCar.simps)
  show ?thesis
    using shiftGear_at_gear_6 [OF on six] on six unfolding c by simp
qed

text \<open>
  C3. With the engine off, \<open>accelerate\<close> and \<open>shiftGear\<close> each return the object as it
  was (brand, model, engine flag, speed and gear) and write exactly one line, the
  engine-is-off message of that method.
\<close>

theorem engine_off_no_effect:
  assumes "\<not> isEngineOn this"
  shows "accelerate this =
           (this, [brand this @ '' '' @ model this @ '' : Engine is off! Cannot accelerate.''])
         \<and> shiftGear this =
           (this, [brand this @ '' '' @ model this @ '' : Engine is off! Cannot shift a gear.''])"
  using assms by (simp add: accelerate_def shiftGear_def)

text \<open>The freshly constructed car of the script has its engine off.\<close>

theorem engine_off_no_effect_witness:
  "\<not> isEngineOn myCar
   \<and> accelerate myCar = (myCar, [''Ford Mustang : Engine is off! Cannot accelerate.''])
   \<and> shiftGear myCar = (myCar, [''Ford Mustang : Engine is off! Cannot shift a gear.''])"
proof -
  have off: "\<not> isEngineOn myCar"
    by (simp add: myCar_def new_SportsCar_def)
  show ?thesis
    using engine_off_no_effect [OF off] off by (simp add: myCar_def new_SportsCar_def)
qed

text \<open>
  C4. From any object at all, \<open>stopEngine\<close> leaves the engine off, the gear at 0 and the
  speed at 0.
\<close>

theorem stopEngine_resets:
  "isEngineOn (fst (stopEngine this)) = False
   \<and> currentGear (fst (stopEngine this)) = 0
   \<and> currentSpeed (fst (stopEngine this)) = 0"
  by (simp add: stopEngine_def Let_def)

text \<open>
  C5. \<open>brake\<close> never looks at the engine flag. In every state it replaces the speed by
  the larger of 0 and the speed minus 20, lowers the gear by exactly 1 with no lower
  bound, leaves the engine flag alone and reports the new speed and gear; on a fresh car
  (engine off, gear 0) the gear becomes \<open>-1\<close>.
\<close>

theorem brake_effect:
  "fst (brake this) =
     this\<lparr>currentSpeed := max 0 (currentSpeed this - 20), currentGear := currentGear this - 1\<rparr>
   \<and> snd (brake this) =
     [brand this @ '' '' @ model this @ '' : Braking! Speed is now ''
        @ number_toString (max 0 (currentSpeed this - 20)) @ '' km/h, and Gear lowered to ''
        @ number_toString (currentGear this - 1)]
   \<and> isEngineOn (fst (brake this)) = isEngineOn this
   \<and> currentGear (fst (brake (new_SportsCar b m))) = - 1"
  by (simp add: brake_def Let_def new_SportsCar_def max_def)

text \<open>
  C6. The script of the file, run on its fresh car: after each of its eleven calls in
  turn the engine flag, gear and speed are as listed (gear 1, speed 20, gear 2, speed 40,
  speed 20 with gear 1, gear 2, speed 40, gear 3, speed 20 with gear 2), and the program
  ends with the engine off, gear 0 and speed 0.
\<close>

theorem driver_scenario:
  "map (\<lambda>k. observe (fst (run (take k driver) myCar))) [1, 2, 3, 4, 5, 6, 7, 8, 9, 10, 11] =
     [(True, 0, 0), (True, 1, 0), (True, 1, 20), (True, 2, 20), (True, 2, 40), (True, 1, 20),
      (True, 2, 20), (True, 2, 40), (True, 3, 40), (True, 2, 20), (False, 0, 0)]
   \<and> observe (fst program) = (False, 0, 0)"
  by (simp add: program_def driver_def myCar_def new_SportsCar_def observe_def method_defs)

text \<open>
  C7, as amended. The script makes exactly eleven calls, all on the one car constructed
  with brand \<open>Ford\<close> and model \<open>Mustang\<close>.
\<close>

theorem driver_eleven_calls:
  "length driver = 11 \<and> brand myCar = ''Ford'' \<and> model myCar = ''Mustang''"
  by (simp add: driver_def myCar_def new_SportsCar_def)

text \<open>C7 as stated says nine calls; the script does not have nine.\<close>

theorem driver_not_nine_calls: "length driver \<noteq> 9"
  by (simp add: driver_def)

text \<open>
  C8. From any object, \<open>startEngine\<close> sets the engine flag and touches nothing else:
  gear, speed, brand and model are as before, and the one line written is the start
  message.
\<close>

theorem startEngine_frame:
  "fst (startEngine this) = this\<lparr>isEngineOn := True\<rparr>
   \<and> isEngineOn (fst (startEngine this))
   \<and> currentGear (fst (startEngine this)) = currentGear this
   \<and> currentSpeed (fst (startEngine this)) = currentSpeed this
   \<and> brand (fst (startEngine this)) = brand this
   \<and> model (fst (startEngine this)) = model this
   \<and> snd (startEngine this) = [brand this @ '' '' @ model this @ '': Engine start with a roar...'']"
  by (simp add: startEngine_def Let_def)

text \<open>
  C9. After any script run on a freshly constructed car, the speed is a multiple of 20.
\<close>

theorem speed_multiple_of_20:
  "20 dvd currentSpeed (fst (run ms (new_SportsCar b m)))"
  by (rule run_speed_dvd) (simp add: new_SportsCar_def)

text \<open>
  C10. \<open>stopEngine\<close> is idempotent: stopping a stopped car gives the same object as
  stopping once, and writes the same line.
\<close>

theorem stopEngine_idempotent:
  "fst (stopEngine (fst (stopEngine this))) = fst (stopEngine this)
   \<and> stopEngine (fst (stopEngine this)) = stopEngine this"
  by (simp add: stopEngine_def Let_def)

end
